theory Spec2Isabelle
  imports Complex_Main
begin

section \<open>Python values, exceptions and strings\<close>

text \<open>
  The tools of \<^verbatim>\<open>travel_agent.py\<close> return dictionaries whose values are strings or
  floats, and the calendar event body nests dictionaries. A dictionary literal is kept as
  an association list in the order the source writes its keys. Console output
  (\<^verbatim>\<open>print\<close>) is not part of any result and is left out.
\<close>

datatype pyval = PStr string | PFloat real | PDict "(string \<times> pyval) list"

type_synonym pydict = "(string \<times> pyval) list"

datatype exn_class =
  ValueError | TypeError | OverflowError | FileNotFoundError | RefreshError | TransportError
  | HttpError

text \<open>An exception object: its class and the text \<^verbatim>\<open>str(e)\<close> gives.\<close>

datatype exn = Exn exn_class string

fun exn_class_of :: "exn \<Rightarrow> exn_class" where
  "exn_class_of (Exn c m) = c"

fun exn_str :: "exn \<Rightarrow> string" where
  "exn_str (Exn c m) = m"

text \<open>
  \<^verbatim>\<open>s.split(sep)\<close> for a non-empty separator: the string is cut at every occurrence of
  the separator, scanning from the left without overlap. \<open>acc\<close> holds the current piece
  reversed.
\<close>

function split_from :: "string \<Rightarrow> string \<Rightarrow> string \<Rightarrow> string list" where
  "split_from sep acc s =
     (if s = [] then [rev acc]
      else if sep \<noteq> [] \<and> take (length sep) s = sep
           then rev acc # split_from sep [] (drop (length sep) s)
           else split_from sep (hd s # acc) (tl s))"
  by pat_completeness auto
termination
  by (relation "measure (\<lambda>(sep, acc, s). length s)") auto

definition py_split :: "string \<Rightarrow> string \<Rightarrow> string list" where
  "py_split s sep = split_from sep [] s"

text \<open>
  \<^verbatim>\<open>a, b = xs\<close>: unpacking into two names raises \<^verbatim>\<open>ValueError\<close> unless the list has
  exactly two elements.
\<close>

definition unpack2 :: "string list \<Rightarrow> exn + string \<times> string" where
  "unpack2 xs =
     (case xs of
        [a, b] \<Rightarrow> Inr (a, b)
      | [] \<Rightarrow> Inl (Exn ValueError ''not enough values to unpack (expected 2, got 0)'')
      | [a] \<Rightarrow> Inl (Exn ValueError ''not enough values to unpack (expected 2, got 1)'')
      | _ \<Rightarrow> Inl (Exn ValueError ''too many values to unpack (expected 2)''))"

section \<open>Calendar dates\<close>

datatype date = Date (date_year: nat) (date_month: nat) (date_day: nat)

definition is_leap :: "nat \<Rightarrow> bool" where
  "is_leap y = (y mod 4 = 0 \<and> (y mod 100 \<noteq> 0 \<or> y mod 400 = 0))"

definition days_in_month :: "nat \<Rightarrow> nat \<Rightarrow> nat" where
  "days_in_month y m =
     (if m = 2 then (if is_leap y then 29 else 28)
      else if m = 4 \<or> m = 6 \<or> m = 9 \<or> m = 11 then 30 else 31)"

definition valid_date :: "date \<Rightarrow> bool" where
  "valid_date d =
     (1 \<le> date_year d \<and> date_year d \<le> 9999 \<and> 1 \<le> date_month d \<and> date_month d \<le> 12 \<and>
      1 \<le> date_day d \<and> date_day d \<le> days_in_month (date_year d) (date_month d))"

fun next_day :: "date \<Rightarrow> date" where
  "next_day (Date y m d) =
     (if d < days_in_month y m then Date y m (d + 1)
      else if m < 12 then Date y (m + 1) 1
      else Date (y + 1) 1 1)"

text \<open>The day \<open>n\<close> days after \<open>d\<close>, on a calendar without a last year.\<close>

fun add_days :: "date \<Rightarrow> nat \<Rightarrow> date" where
  "add_days d 0 = d"
| "add_days d (Suc n) = add_days (next_day d) n"

text \<open>
  \<^verbatim>\<open>d + datetime.timedelta(days=n)\<close>. Python's calendar ends at 9999-12-31
  (\<^verbatim>\<open>datetime.MAXYEAR\<close>): a sum beyond it raises \<^verbatim>\<open>OverflowError\<close>.
\<close>

definition date_plus_days :: "date \<Rightarrow> nat \<Rightarrow> exn + date" where
  "date_plus_days d n =
     (let r = add_days d n in
      if date_year r \<le> 9999 then Inr r
      else Inl (Exn OverflowError ''date value out of range''))"

text \<open>
  The two \<^verbatim>\<open>datetime\<close> library functions \<^verbatim>\<open>search_flights\<close> calls are parameters of the
  model: which strings \<^verbatim>\<open>datetime.datetime.fromisoformat\<close> accepts differs between
  interpreter versions, and so does the padding of \<^verbatim>\<open>%Y\<close> for years below 1000.
  \<open>fromisoformat\<close> yields the date part of the parsed value or the exception raised;
  \<open>strftime_ymd\<close> is \<^verbatim>\<open>strftime("%Y-%m-%d")\<close>.
\<close>

record datetime_lib =
  fromisoformat :: "string \<Rightarrow> exn + date"
  strftime_ymd :: "date \<Rightarrow> string"

text \<open>
  The library's contract for a string argument: \<^verbatim>\<open>fromisoformat\<close> rejects it with
  \<^verbatim>\<open>ValueError\<close> and with nothing else.
\<close>

definition raises_only_ValueError :: "datetime_lib \<Rightarrow> bool" where
  "raises_only_ValueError L = (\<forall>s e. fromisoformat L s = Inl e \<longrightarrow> exn_class_of e = ValueError)"

subsection \<open>A reference instance for date-only strings\<close>

definition digit_val :: "char \<Rightarrow> nat option" where
  "digit_val c =
     map_of [(CHR ''0'', 0), (CHR ''1'', 1), (CHR ''2'', 2), (CHR ''3'', 3), (CHR ''4'', 4),
             (CHR ''5'', 5), (CHR ''6'', 6), (CHR ''7'', 7), (CHR ''8'', 8), (CHR ''9'', 9)] c"

fun digits_val :: "nat \<Rightarrow> string \<Rightarrow> nat option" where
  "digits_val acc [] = Some acc"
| "digits_val acc (c # cs) =
     (case digit_val c of None \<Rightarrow> None | Some v \<Rightarrow> digits_val (10 * acc + v) cs)"

definition digit_char :: "nat \<Rightarrow> char" where
  "digit_char n = ''0123456789'' ! (n mod 10)"

definition pad2 :: "nat \<Rightarrow> string" where
  "pad2 n = [digit_char (n div 10), digit_char n]"

definition pad4 :: "nat \<Rightarrow> string" where
  "pad4 n = [digit_char (n div 1000), digit_char (n div 100), digit_char (n div 10), digit_char n]"

text \<open>
  \<open>iso_date_only\<close> accepts exactly the ten-character form \<^verbatim>\<open>YYYY-MM-DD\<close> of a date that
  exists, and \<open>ymd_padded\<close> writes a date with zero padding. On such strings, and on
  years from 1000 on, every CPython version behaves this way.
\<close>

definition iso_date_only :: "string \<Rightarrow> exn + date" where
  "iso_date_only s =
     (if length s = 10 \<and> s ! 4 = CHR ''-'' \<and> s ! 7 = CHR ''-'' then
        (case (digits_val 0 (take 4 s), digits_val 0 (take 2 (drop 5 s)),
               digits_val 0 (take 2 (drop 8 s))) of
           (Some y, Some m, Some d) \<Rightarrow>
             (if valid_date (Date y m d) then Inr (Date y m d)
              else Inl (Exn ValueError (''Invalid isoformat string: '' @ s)))
         | _ \<Rightarrow> Inl (Exn ValueError (''Invalid isoformat string: '' @ s)))
      else Inl (Exn ValueError (''Invalid isoformat string: '' @ s)))"

definition ymd_padded :: "date \<Rightarrow> string" where
  "ymd_padded d =
     pad4 (date_year d) @ ''-'' @ pad2 (date_month d) @ ''-'' @ pad2 (date_day d)"

definition date_only_lib :: datetime_lib where
  "date_only_lib = \<lparr>fromisoformat = iso_date_only, strftime_ymd = ymd_padded\<rparr>"

section \<open>The mock travel tools\<close>

definition flight_offers :: "string \<Rightarrow> string \<Rightarrow> pydict list" where
  "flight_offers destination start_date =
     [ [(''id'', PStr ''FL123''), (''departure'', PStr ''New York (JFK)''),
        (''arrival'', PStr destination), (''price'', PFloat 450),
        (''departure_time'', PStr (start_date @ ''T08:00:00''))],
       [(''id'', PStr ''FL456''), (''departure'', PStr ''New York (JFK)''),
        (''arrival'', PStr destination), (''price'', PFloat 550),
        (''departure_time'', PStr (start_date @ ''T11:00:00''))] ]"

text \<open>The body of the \<^verbatim>\<open>try\<close> block of \<^verbatim>\<open>search_flights\<close>: split, unpack, parse, format.\<close>

definition parse_start_date :: "datetime_lib \<Rightarrow> string \<Rightarrow> exn + string" where
  "parse_start_date L travel_dates =
     (case unpack2 (py_split travel_dates '' to '') of
        Inl e \<Rightarrow> Inl e
      | Inr (start_date_str, end_date_str) \<Rightarrow>
          (case fromisoformat L start_date_str of
             Inl e \<Rightarrow> Inl e
           | Inr d \<Rightarrow> Inr (strftime_ymd L d)))"

text \<open>
  \<^verbatim>\<open>search_flights(destination, travel_dates=None)\<close>; \<open>today\<close> is
  \<^verbatim>\<open>datetime.date.today()\<close>. The default start date of line 34 is computed first, for
  every \<^verbatim>\<open>travel_dates\<close> and outside the \<^verbatim>\<open>try\<close> block: its \<^verbatim>\<open>OverflowError\<close> leaves the
  function. \<^verbatim>\<open>if travel_dates:\<close> is false for \<^verbatim>\<open>None\<close> and for the empty string.
  \<^verbatim>\<open>except ValueError\<close> keeps the default; any other exception leaves the function
  (\<open>Inl\<close>).
\<close>

definition search_flights ::
  "datetime_lib \<Rightarrow> date \<Rightarrow> string \<Rightarrow> string option \<Rightarrow> exn + pydict list" where
  "search_flights L today destination travel_dates =
     (case date_plus_days today 28 of
        Inl e \<Rightarrow> Inl e
      | Inr default_date \<Rightarrow>
          (let default_start = strftime_ymd L default_date in
           (case travel_dates of
              None \<Rightarrow> Inr (flight_offers destination default_start)
            | Some td \<Rightarrow>
                (if td = [] then Inr (flight_offers destination default_start)
                 else (case parse_start_date L td of
                         Inr start_date \<Rightarrow> Inr (flight_offers destination start_date)
                       | Inl e \<Rightarrow>
                           (if exn_class_of e = ValueError
                            then Inr (flight_offers destination default_start)
                            else Inl e))))))"

definition book_flight :: "string \<Rightarrow> pydict" where
  "book_flight flight_id =
     [(''status'', PStr ''success''),
      (''confirmation_id'', PStr (''CONF-'' @ flight_id @ ''-BKD''))]"

definition hotel_offers :: "pydict list" where
  "hotel_offers =
     [ [(''id'', PStr ''HOT789''), (''name'', PStr ''Grand Plaza Hotel''),
        (''price_per_night'', PFloat 250)],
       [(''id'', PStr ''HOT101''), (''name'', PStr ''City Center Inn''),
        (''price_per_night'', PFloat 180)] ]"

text \<open>
  \<^verbatim>\<open>Google_Hotels(destination, travel_dates=None)\<close>: the \<^verbatim>\<open>try\<close> block only splits and
  unpacks; the offers do not depend on either argument.
\<close>

definition Google_Hotels :: "string \<Rightarrow> string option \<Rightarrow> exn + pydict list" where
  "Google_Hotels destination travel_dates =
     (case travel_dates of
        None \<Rightarrow> Inr hotel_offers
      | Some td \<Rightarrow>
          (if td = [] then Inr hotel_offers
           else (case unpack2 (py_split td '' to '') of
                   Inr (start_date_str, end_date_str) \<Rightarrow> Inr hotel_offers
                 | Inl e \<Rightarrow>
                     (if exn_class_of e = ValueError then Inr hotel_offers else Inl e))))"

definition book_hotel :: "string \<Rightarrow> pydict" where
  "book_hotel hotel_id =
     [(''status'', PStr ''success''),
      (''confirmation_id'', PStr (''CONF-'' @ hotel_id @ ''-BKD''))]"


section \<open>The tool list\<close>

text \<open>
  \<^verbatim>\<open>@tool\<close> names a tool after the function it decorates and takes the argument schema
  from the signature. \<open>tools\<close> is the list handed to the agent and to the executor.
\<close>

datatype arg_type = TStr | TOptionalStr

record tool_spec =
  tool_name :: string
  tool_args :: "(string \<times> arg_type) list"

definition search_flights_tool :: tool_spec where
  "search_flights_tool =
     \<lparr>tool_name = ''search_flights'',
      tool_args = [(''destination'', TStr), (''travel_dates'', TOptionalStr)]\<rparr>"

definition book_flight_tool :: tool_spec where
  "book_flight_tool = \<lparr>tool_name = ''book_flight'', tool_args = [(''flight_id'', TStr)]\<rparr>"

definition Google_Hotels_tool :: tool_spec where
  "Google_Hotels_tool =
     \<lparr>tool_name = ''Google_Hotels'',
      tool_args = [(''destination'', TStr), (''travel_dates'', TOptionalStr)]\<rparr>"

definition book_hotel_tool :: tool_spec where
  "book_hotel_tool = \<lparr>tool_name = ''book_hotel'', tool_args = [(''hotel_id'', TStr)]\<rparr>"

definition create_calendar_event_tool :: tool_spec where
  "create_calendar_event_tool =
     \<lparr>tool_name = ''create_calendar_event'',
      tool_args = [(''title'', TStr), (''start_time'', TStr), (''end_time'', TStr),
                   (''description'', TStr)]\<rparr>"

definition tools :: "tool_spec list" where
  "tools = [search_flights_tool, book_flight_tool, Google_Hotels_tool, book_hotel_tool,
            create_calendar_event_tool]"

text \<open>The shape of a dictionary: its keys in order, each with the kind of its value.\<close>

datatype kind = KStr | KFloat | KDict

fun kind_of :: "pyval \<Rightarrow> kind" where
  "kind_of (PStr s) = KStr"
| "kind_of (PFloat x) = KFloat"
| "kind_of (PDict kvs) = KDict"

definition shape :: "pydict \<Rightarrow> (string \<times> kind) list" where
  "shape d = map (\<lambda>(k, v). (k, kind_of v)) d"

definition flight_offer_shape :: "(string \<times> kind) list" where
  "flight_offer_shape =
     [(''id'', KStr), (''departure'', KStr), (''arrival'', KStr), (''price'', KFloat),
      (''departure_time'', KStr)]"

definition hotel_offer_shape :: "(string \<times> kind) list" where
  "hotel_offer_shape = [(''id'', KStr), (''name'', KStr), (''price_per_night'', KFloat)]"

section \<open>The calendar tool\<close>

text \<open>
  A credential object of \<^verbatim>\<open>google.oauth2.credentials\<close>, reduced to what the tool reads.
  The library defines \<^verbatim>\<open>valid\<close> as: there is a token and it is not expired.
\<close>

record credentials =
  token :: "string option"
  refresh_token :: "string option"
  expired :: bool

definition cred_valid :: "credentials \<Rightarrow> bool" where
  "cred_valid c = (token c \<noteq> None \<and> \<not> expired c)"

text \<open>Truth value of an optional string: \<^verbatim>\<open>None\<close> and the empty string are false.\<close>

definition truthy :: "string option \<Rightarrow> bool" where
  "truthy s = (case s of None \<Rightarrow> False | Some t \<Rightarrow> t \<noteq> [])"

text \<open>
  What the outside world answers to each call the tool makes: parsing the stored token
  file, the refresh request, reading \<^verbatim>\<open>credentials.json\<close>, the consent flow in the
  browser, building the service and inserting the event. Each call returns or raises.
\<close>

type_synonym event_resource = "(string \<times> string) list"

record google_api =
  from_authorized_user_file :: "string \<Rightarrow> exn + credentials"
  refresh :: "credentials \<Rightarrow> exn + credentials"
  from_client_secrets_file :: "exn + string"
  run_local_server :: "string \<Rightarrow> exn + credentials"
  to_json :: "credentials \<Rightarrow> string"
  build :: "credentials \<Rightarrow> exn + unit"
  insert_execute :: "credentials \<Rightarrow> pyval \<Rightarrow> exn + event_resource"

datatype api_call =
  LoadToken | Refresh | ClientSecrets | RunLocalServer | WriteToken string | Build
  | InsertEvent pyval

text \<open>
  The result of one call of the tool: the string returned or the exception that left the
  function, the contents of \<^verbatim>\<open>token.json\<close> afterwards (\<open>None\<close>: no such file), and the
  calls made, in order.
\<close>

record calendar_outcome =
  returned :: "exn + string"
  token_json :: "string option"
  calls :: "api_call list"

text \<open>Lines 107-108: load the stored credential when \<^verbatim>\<open>token.json\<close> exists.\<close>

definition load_credentials ::
  "google_api \<Rightarrow> string option \<Rightarrow> (exn + credentials option) \<times> api_call list" where
  "load_credentials G token_file =
     (case token_file of
        None \<Rightarrow> (Inr None, [])
      | Some txt \<Rightarrow>
          (case from_authorized_user_file G txt of
             Inl e \<Rightarrow> (Inl e, [LoadToken])
           | Inr c \<Rightarrow> (Inr (Some c), [LoadToken])))"

text \<open>Lines 114-115: the interactive consent flow.\<close>

definition consent_flow :: "google_api \<Rightarrow> (exn + credentials) \<times> api_call list" where
  "consent_flow G =
     (case from_client_secrets_file G of
        Inl e \<Rightarrow> (Inl e, [ClientSecrets])
      | Inr flow \<Rightarrow> (run_local_server G flow, [ClientSecrets, RunLocalServer]))"

text \<open>Lines 111-115: \<^verbatim>\<open>if creds and creds.expired and creds.refresh_token\<close>.\<close>

definition refresh_or_consent ::
  "google_api \<Rightarrow> credentials option \<Rightarrow> (exn + credentials) \<times> api_call list" where
  "refresh_or_consent G creds =
     (case creds of
        None \<Rightarrow> consent_flow G
      | Some c \<Rightarrow>
          (if expired c \<and> truthy (refresh_token c) then (refresh G c, [Refresh])
           else consent_flow G))"

text \<open>
  Lines 110-117: \<^verbatim>\<open>if not creds or not creds.valid\<close>, obtain a credential and write it to
  \<^verbatim>\<open>token.json\<close>. An exception of the refresh or of the consent flow leaves the function
  before the file is written.
\<close>

definition ensure_credentials ::
  "google_api \<Rightarrow> string option \<Rightarrow> credentials option \<Rightarrow>
     (exn + credentials) \<times> string option \<times> api_call list" where
  "ensure_credentials G token_file creds =
     (let obtain =
        (case refresh_or_consent G creds of
           (Inl e, cs) \<Rightarrow> (Inl e, token_file, cs)
         | (Inr c, cs) \<Rightarrow> (Inr c, Some (to_json G c), cs @ [WriteToken (to_json G c)]))
      in case creds of
           None \<Rightarrow> obtain
         | Some c \<Rightarrow> (if \<not> cred_valid c then obtain else (Inr c, token_file, [])))"

definition str_of_get :: "string option \<Rightarrow> string" where
  "str_of_get v = (case v of None \<Rightarrow> ''None'' | Some s \<Rightarrow> s)"

definition event_body :: "string \<Rightarrow> string \<Rightarrow> string \<Rightarrow> string \<Rightarrow> pyval" where
  "event_body title start_time end_time description =
     PDict [(''summary'', PStr title), (''description'', PStr description),
            (''start'', PDict [(''dateTime'', PStr start_time),
                               (''timeZone'', PStr ''America/New_York'')]),
            (''end'', PDict [(''dateTime'', PStr end_time),
                             (''timeZone'', PStr ''America/New_York'')])]"

text \<open>
  Lines 119-131: the \<^verbatim>\<open>try\<close> block. \<^verbatim>\<open>except Exception\<close> turns every exception of
  building the service or of the insert request into the returned string.
\<close>

definition insert_event ::
  "google_api \<Rightarrow> credentials \<Rightarrow> string \<Rightarrow> string \<Rightarrow> string \<Rightarrow> string \<Rightarrow>
     string \<times> api_call list" where
  "insert_event G creds title start_time end_time description =
     (case build G creds of
        Inl e \<Rightarrow> (''Error creating event: '' @ exn_str e, [Build])
      | Inr service \<Rightarrow>
          (let event = event_body title start_time end_time description in
           (case insert_execute G creds event of
              Inl e \<Rightarrow> (''Error creating event: '' @ exn_str e, [Build, InsertEvent event])
            | Inr created \<Rightarrow>
                (''Successfully created event with ID: '' @ str_of_get (map_of created ''id''),
                 [Build, InsertEvent event]))))"

text \<open>
  \<^verbatim>\<open>create_calendar_event(title, start_time, end_time, description)\<close>, with the answers
  of the outside world \<open>G\<close> and the contents of \<^verbatim>\<open>token.json\<close> before the call.
\<close>

definition create_calendar_event ::
  "google_api \<Rightarrow> string option \<Rightarrow> string \<Rightarrow> string \<Rightarrow> string \<Rightarrow> string \<Rightarrow>
     calendar_outcome" where
  "create_calendar_event G token_file title start_time end_time description =
     (case load_credentials G token_file of
        (Inl e, cs0) \<Rightarrow> \<lparr>returned = Inl e, token_json = token_file, calls = cs0\<rparr>
      | (Inr creds, cs0) \<Rightarrow>
          (case ensure_credentials G token_file creds of
             (Inl e, tf, cs1) \<Rightarrow> \<lparr>returned = Inl e, token_json = tf, calls = cs0 @ cs1\<rparr>
           | (Inr c, tf, cs1) \<Rightarrow>
               (case insert_event G c title start_time end_time description of
                  (s, cs2) \<Rightarrow>
                    \<lparr>returned = Inr s, token_json = tf, calls = cs0 @ cs1 @ cs2\<rparr>)))"


section \<open>The chat front end\<close>

text \<open>
  The message classes of \<^verbatim>\<open>langchain_core.messages\<close>. \<^verbatim>\<open>app.py\<close> builds
  \<^verbatim>\<open>HumanMessage(content=...)\<close> and \<^verbatim>\<open>AIMessage(content=...)\<close>, the latter with no
  tool calls; the executor's scratchpad holds assistant messages with tool calls and
  the tool messages answering them.
\<close>

record tool_call =
  call_name :: string
  call_args :: "(string \<times> string) list"

datatype message =
  HumanMessage string
  | AIMessage string "tool_call list"
  | ToolMessage string string

text \<open>
  What \<^verbatim>\<open>agent_executor.invoke\<close> receives, and what it hands back: the final text under
  \<^verbatim>\<open>'output'\<close>, with the scratchpad the loop built during the turn. The executor is a
  parameter; it returns or raises.
\<close>

record invocation =
  inv_input :: string
  chat_history :: "message list"

record agent_response =
  output_text :: string
  scratchpad :: "message list"

type_synonym executor = "invocation \<Rightarrow> exn + agent_response"

definition initial_messages :: "message list" where
  "initial_messages = [AIMessage ''How can I help you plan your next trip?'' []]"

record turn =
  messages :: "message list"
  invoked :: "invocation option"
  raised :: "exn option"

text \<open>
  Lines 29-50 of \<^verbatim>\<open>app.py\<close>, one run of the script with \<open>msgs\<close> as
  \<^verbatim>\<open>st.session_state.messages\<close>. \<^verbatim>\<open>if prompt := st.chat_input(...)\<close> is false for \<^verbatim>\<open>None\<close>
  and for the empty string. \<^verbatim>\<open>messages[:-1]\<close> is \<open>butlast\<close>. An exception of the executor
  ends the run after the user's message was appended.
\<close>

definition chat_input_handler :: "executor \<Rightarrow> message list \<Rightarrow> string option \<Rightarrow> turn" where
  "chat_input_handler agent_executor msgs chat_input =
     (case chat_input of
        None \<Rightarrow> \<lparr>messages = msgs, invoked = None, raised = None\<rparr>
      | Some prompt \<Rightarrow>
          (if prompt = [] then \<lparr>messages = msgs, invoked = None, raised = None\<rparr>
           else
             (let appended = msgs @ [HumanMessage prompt];
                  request = \<lparr>inv_input = prompt, chat_history = butlast appended\<rparr>
              in (case agent_executor request of
                    Inl e \<Rightarrow>
                      \<lparr>messages = appended, invoked = Some request, raised = Some e\<rparr>
                  | Inr response \<Rightarrow>
                      \<lparr>messages = appended @ [AIMessage (output_text response) []],
                       invoked = Some request, raised = None\<rparr>))))"

text \<open>A session: the script runs once per chat input, on the messages the last run left.\<close>

fun session_messages :: "executor \<Rightarrow> message list \<Rightarrow> string option list \<Rightarrow> message list" where
  "session_messages ex msgs [] = msgs"
| "session_messages ex msgs (p # ps) =
     session_messages ex (messages (chat_input_handler ex msgs p)) ps"

fun session_invocations ::
  "executor \<Rightarrow> message list \<Rightarrow> string option list \<Rightarrow> invocation list" where
  "session_invocations ex msgs [] = []"
| "session_invocations ex msgs (p # ps) =
     (case invoked (chat_input_handler ex msgs p) of None \<Rightarrow> [] | Some i \<Rightarrow> [i])
       @ session_invocations ex (messages (chat_input_handler ex msgs p)) ps"

text \<open>A message of the transcript proper: user text, or assistant text without tool calls.\<close>

fun is_chat_text :: "message \<Rightarrow> bool" where
  "is_chat_text (HumanMessage c) = True"
| "is_chat_text (AIMessage c tcs) = (tcs = [])"
| "is_chat_text (ToolMessage c i) = False"

section \<open>The planning loop\<close>

text \<open>
  Modelled from the spec: the loop that asks the oracle, runs the requested tools and
  stops at a final answer or at the iteration cap. The source delegates it to the agent
  framework (\<^verbatim>\<open>AgentExecutor(agent=agent, tools=tools, verbose=True)\<close>) and holds none of
  it. The oracle, the tool runner and the cap are parameters.
\<close>

datatype tool_result = ResultData "pydict list" | ResultError string

datatype oracle_reply = FinalAnswer string | ToolCallRequests "tool_call list"

record oracle_context =
  ctx_history :: "message list"
  ctx_input :: string
  ctx_scratch :: "(tool_call \<times> tool_result) list"

definition unable_to_complete :: string where
  "unable_to_complete = ''unable to complete''"

text \<open>
  Modelled from the spec: a request is valid when its tool name is in the catalogue, every
  argument it gives is declared, and every argument that is not optional is given.
\<close>

definition valid_request :: "tool_spec list \<Rightarrow> tool_call \<Rightarrow> bool" where
  "valid_request catalogue r =
     (case find (\<lambda>t. tool_name t = call_name r) catalogue of
        None \<Rightarrow> False
      | Some t \<Rightarrow>
          list_all (\<lambda>(k, v). k \<in> set (map fst (tool_args t))) (call_args r) \<and>
          list_all (\<lambda>(k, ty). ty = TOptionalStr \<or> k \<in> set (map fst (call_args r)))
            (tool_args t))"

definition run_request ::
  "tool_spec list \<Rightarrow> (tool_call \<Rightarrow> tool_result) \<Rightarrow> tool_call \<Rightarrow> tool_result" where
  "run_request catalogue invoke r =
     (if valid_request catalogue r then invoke r
      else ResultError (''invalid tool call: '' @ call_name r))"

text \<open>
  Modelled from the spec: \<open>planning_loop\<close> returns the answer and the number of times
  the oracle was asked; its sixth argument is the number of iterations left.
\<close>

fun planning_loop ::
  "(oracle_context \<Rightarrow> oracle_reply) \<Rightarrow> tool_spec list \<Rightarrow> (tool_call \<Rightarrow> tool_result) \<Rightarrow>
     message list \<Rightarrow> string \<Rightarrow> nat \<Rightarrow> (tool_call \<times> tool_result) list \<Rightarrow> string \<times> nat" where
  "planning_loop oracle catalogue invoke history inp 0 scratch = (unable_to_complete, 0)"
| "planning_loop oracle catalogue invoke history inp (Suc n) scratch =
     (case oracle \<lparr>ctx_history = history, ctx_input = inp, ctx_scratch = scratch\<rparr> of
        FinalAnswer text \<Rightarrow> (text, 1)
      | ToolCallRequests rs \<Rightarrow>
          (case planning_loop oracle catalogue invoke history inp n
                  (scratch @ map (\<lambda>r. (r, run_request catalogue invoke r)) rs) of
             (answer, asked) \<Rightarrow> (answer, Suc asked)))"


section \<open>Predicates and inputs used by the theorems\<close>

text \<open>
  Stated from the spec's words, not from the source: the declared format
  \<^verbatim>\<open>YYYY-MM-DD to YYYY-MM-DD\<close> of \<^verbatim>\<open>travel_dates\<close>, digit for digit.
\<close>

definition is_ymd :: "string \<Rightarrow> bool" where
  "is_ymd s =
     (length s = 10 \<and> s ! 4 = CHR ''-'' \<and> s ! 7 = CHR ''-'' \<and>
      list_all (\<lambda>c. digit_val c \<noteq> None) (take 4 s @ take 2 (drop 5 s) @ take 2 (drop 8 s)))"

definition matches_dates_format :: "string \<Rightarrow> bool" where
  "matches_dates_format s =
     (length s = 24 \<and> is_ymd (take 10 s) \<and> take 4 (drop 10 s) = '' to '' \<and> is_ymd (drop 14 s))"

text \<open>
  The inputs on which \<^verbatim>\<open>search_flights\<close> keeps its default start date: no string, the
  empty string, a string that does not split at \<^verbatim>\<open>' to '\<close> into exactly two pieces, or
  one whose first piece \<^verbatim>\<open>fromisoformat\<close> rejects.
\<close>

definition keeps_default :: "datetime_lib \<Rightarrow> string option \<Rightarrow> bool" where
  "keeps_default L travel_dates =
     (case travel_dates of
        None \<Rightarrow> True
      | Some td \<Rightarrow>
          td = [] \<or> length (py_split td '' to '') \<noteq> 2 \<or>
          isl (fromisoformat L (hd (py_split td '' to ''))))"

text \<open>
  The clocks on which line 34 of \<^verbatim>\<open>search_flights\<close> does not raise: a date of Python's
  calendar, on or before 9999-12-03.
\<close>

definition clock_in_range :: "date \<Rightarrow> bool" where
  "clock_in_range today =
     (valid_date today \<and>
      (date_year today < 9999 \<or> date_month today < 12 \<or> date_day today \<le> 3))"

text \<open>Stored credentials and an outside world in which every call succeeds.\<close>

definition stored_expired :: credentials where
  "stored_expired =
     \<lparr>token = Some ''ya29.old'', refresh_token = Some ''1//refresh'', expired = True\<rparr>"

definition stored_valid :: credentials where
  "stored_valid =
     \<lparr>token = Some ''ya29.live'', refresh_token = Some ''1//refresh'', expired = False\<rparr>"

definition refreshed :: credentials where
  "refreshed =
     \<lparr>token = Some ''ya29.new'', refresh_token = Some ''1//refresh'', expired = False\<rparr>"

definition api_online :: "credentials \<Rightarrow> google_api" where
  "api_online stored =
     \<lparr>from_authorized_user_file = (\<lambda>txt. Inr stored),
      refresh = (\<lambda>c. Inr refreshed),
      from_client_secrets_file = Inr ''client_secret'',
      run_local_server = (\<lambda>flow. Inr refreshed),
      to_json = (\<lambda>c. ''token='' @ str_of_get (token c)),
      build = (\<lambda>c. Inr ()),
      insert_execute =
        (\<lambda>c body. Inr [(''id'', ''evt42''), (''htmlLink'', ''https://calendar/evt42'')])\<rparr>"

text \<open>The same world, except that the token endpoint rejects the refresh token.\<close>

definition api_refresh_rejected :: google_api where
  "api_refresh_rejected =
     (api_online stored_expired)
       \<lparr>refresh :=
          (\<lambda>c. Inl (Exn RefreshError ''invalid_grant: Token has been expired or revoked.''))\<rparr>"

fun is_write :: "api_call \<Rightarrow> bool" where
  "is_write (WriteToken s) = True"
| "is_write c = False"

text \<open>An executor whose turn ran one tool; its scratchpad holds the call and the result.\<close>

definition scripted_executor :: executor where
  "scripted_executor req =
     Inr \<lparr>output_text = ''Answer to: '' @ inv_input req,
          scratchpad =
            [AIMessage []
               [\<lparr>call_name = ''search_flights'', call_args = [(''destination'', ''Paris'')]\<rparr>],
             ToolMessage ''[FL123, FL456]'' ''call_1'']\<rparr>"

text \<open>
  An executor that answers by what it was handed: whether the history holds a user
  message with the text of the input.
\<close>

definition duplicate_detector :: executor where
  "duplicate_detector req =
     Inr \<lparr>output_text =
            (if HumanMessage (inv_input req) \<in> set (chat_history req)
             then ''input is in the history'' else ''input is not in the history''),
          scratchpad = []\<rparr>"

text \<open>An oracle that never answers: every reply requests another flight search.\<close>

definition always_searching :: "oracle_context \<Rightarrow> oracle_reply" where
  "always_searching ctx =
     ToolCallRequests
       [\<lparr>call_name = ''search_flights'', call_args = [(''destination'', ''Paris'')]\<rparr>]"

section \<open>The default start date\<close>

lemma days_in_month_ge: "28 \<le> days_in_month y m"
  by (simp add: days_in_month_def)

lemma add_days_add: "add_days d (a + b) = add_days (add_days d a) b"
  by (induction a arbitrary: d) auto

lemma add_days_same_month:
  "d + n \<le> days_in_month y m \<Longrightarrow> add_days (Date y m d) n = Date y m (d + n)"
  by (induction n arbitrary: d) auto

lemma add_days_next_month:
  assumes "d \<le> days_in_month y m" and "days_in_month y m < d + n" and "n \<le> 28"
  shows "add_days (Date y m d) n =
           (if m < 12 then Date y (m + 1) (d + n - days_in_month y m)
            else Date (y + 1) 1 (d + n - days_in_month y m))"
proof -
  define k where "k = days_in_month y m - d"
  define j where "j = n - k - 1"
  have n: "n = k + Suc j" and dk: "d + k = days_in_month y m"
    using assms by (auto simp: k_def j_def)
  have j: "1 + j \<le> days_in_month y' m'" for y' m'
    using assms(3) n days_in_month_ge[of y' m'] by linarith
  have "add_days (Date y m d) n = add_days (add_days (Date y m d) k) (Suc j)"
    unfolding n by (rule add_days_add)
  also have "add_days (Date y m d) k = Date y m (days_in_month y m)"
    using add_days_same_month[of d k y m] dk by simp
  also have "add_days (Date y m (days_in_month y m)) (Suc j) =
               (if m < 12 then add_days (Date y (m + 1) 1) j else add_days (Date (y + 1) 1 1) j)"
    by simp
  also have "\<dots> = (if m < 12 then Date y (m + 1) (1 + j) else Date (y + 1) 1 (1 + j))"
    using add_days_same_month[OF j] by simp
  also have "1 + j = d + n - days_in_month y m"
    using n dk by simp
  finally show ?thesis .
qed

lemma clock_in_range_default:
  assumes "clock_in_range today"
  shows "date_plus_days today 28 = Inr (add_days today 28)"
proof -
  obtain y m d where t: "today = Date y m d" by (cases today)
  from assms t have v: "y \<le> 9999" "1 \<le> m" "m \<le> 12" "1 \<le> d" "d \<le> days_in_month y m"
    and r: "y < 9999 \<or> m < 12 \<or> d \<le> 3"
    by (auto simp: clock_in_range_def valid_date_def)
  have "date_year (add_days (Date y m d) 28) \<le> 9999"
  proof (cases "d + 28 \<le> days_in_month y m")
    case True
    then show ?thesis using v by (simp add: add_days_same_month)
  next
    case False
    then have lt: "days_in_month y m < d + 28" by simp
    have "m < 12 \<or> y < 9999"
    proof (cases "m = 12")
      case True
      then have "days_in_month y m = 31" by (simp add: days_in_month_def)
      with lt have "3 < d" by simp
      with r True show ?thesis by simp
    next
      case False
      with v show ?thesis by simp
    qed
    with v show ?thesis
      by (auto simp: add_days_next_month[OF v(5) lt])
  qed
  with t show ?thesis by (simp add: date_plus_days_def)
qed

section \<open>Search and booking tools\<close>

lemma unpack2_class: "unpack2 xs = Inl e \<Longrightarrow> exn_class_of e = ValueError"
  by (auto simp: unpack2_def split: list.splits)

lemma parse_start_date_class:
  "raises_only_ValueError L \<Longrightarrow> parse_start_date L td = Inl e \<Longrightarrow> exn_class_of e = ValueError"
  by (auto simp: parse_start_date_def raises_only_ValueError_def
           dest: unpack2_class split: sum.splits prod.splits)

lemma parse_start_date_fails:
  "length (py_split td '' to '') \<noteq> 2 \<or> isl (fromisoformat L (hd (py_split td '' to '')))
     \<Longrightarrow> isl (parse_start_date L td)"
  by (auto simp: parse_start_date_def unpack2_def split: sum.splits prod.splits list.splits)

lemma shape_flight_offers:
  "map shape (flight_offers destination s) = [flight_offer_shape, flight_offer_shape]"
  by (simp add: flight_offers_def shape_def flight_offer_shape_def)

lemma shape_hotel_offers: "map shape hotel_offers = [hotel_offer_shape, hotel_offer_shape]"
  by (simp add: hotel_offers_def shape_def hotel_offer_shape_def)

text \<open>On a later clock the tool raises, whatever its arguments.\<close>

lemma late_clock_raises:
  assumes "valid_date today" and "\<not> clock_in_range today"
  shows "search_flights L today destination travel_dates =
           Inl (Exn OverflowError ''date value out of range'')"
proof -
  obtain y m d where t: "today = Date y m d" by (cases today)
  from assms t have v: "y = 9999" "m = 12" "3 < d" "d \<le> days_in_month y m"
    by (auto simp: clock_in_range_def valid_date_def)
  then have "days_in_month y m < d + 28" by (simp add: days_in_month_def)
  from add_days_next_month[OF v(4) this] v have "date_year (add_days today 28) = 10000"
    by (simp add: t)
  then show ?thesis by (simp add: search_flights_def date_plus_days_def)
qed

lemma search_flights_offers:
  assumes "raises_only_ValueError L" and "clock_in_range today"
  shows "\<exists>s. search_flights L today destination travel_dates = Inr (flight_offers destination s)"
  using parse_start_date_class[OF assms(1)] clock_in_range_default[OF assms(2)]
  by (auto simp: search_flights_def Let_def split: option.splits sum.splits)

lemma search_flights_default:
  assumes "raises_only_ValueError L" and "clock_in_range today"
    and "keeps_default L travel_dates"
  shows "search_flights L today destination travel_dates =
           Inr (flight_offers destination (strftime_ymd L (add_days today 28)))"
proof (cases travel_dates)
  case None
  then show ?thesis
    by (simp add: search_flights_def clock_in_range_default[OF assms(2)])
next
  case (Some td)
  show ?thesis
  proof (cases "td = []")
    case True
    with Some show ?thesis
      by (simp add: search_flights_def clock_in_range_default[OF assms(2)])
  next
    case False
    with Some assms(3) have "isl (parse_start_date L td)"
      by (intro parse_start_date_fails) (simp add: keeps_default_def)
    then obtain e where e: "parse_start_date L td = Inl e"
      by (cases "parse_start_date L td") auto
    with parse_start_date_class[OF assms(1) e] Some False show ?thesis
      by (simp add: search_flights_def clock_in_range_default[OF assms(2)])
  qed
qed

lemma Google_Hotels_offers: "Google_Hotels destination travel_dates = Inr hotel_offers"
  by (auto simp: Google_Hotels_def dest: unpack2_class
        split: option.splits sum.splits prod.splits)

lemma date_only_lib_contract: "raises_only_ValueError date_only_lib"
  by (auto simp: raises_only_ValueError_def date_only_lib_def iso_date_only_def
        split: if_splits option.splits)

lemma next_month_keeps_default: "keeps_default date_only_lib (Some ''next month'')"
  by code_simp

lemma clock_2025_01_10: "clock_in_range (Date 2025 1 10)"
  by code_simp

lemma default_start_2025_01_10:
  "strftime_ymd date_only_lib (add_days (Date 2025 1 10) 28) = ''2025-02-07''"
  by code_simp

text \<open>
  C2, as amended. On a clock in range (on or before 9999-12-03) and whenever
  \<^verbatim>\<open>fromisoformat\<close> rejects strings with \<^verbatim>\<open>ValueError\<close> only, \<^verbatim>\<open>search_flights\<close>
  returns for every destination and every \<^verbatim>\<open>travel_dates\<close> (absent, empty, malformed or
  not) a list of two offers of the declared shape, and raises nothing; \<^verbatim>\<open>Google_Hotels\<close>
  does so on every clock. \<^verbatim>\<open>search_flights\<close> uses the default start date, 28 days after
  today, whenever \<^verbatim>\<open>travel_dates\<close> is absent, is empty, does not split at \<^verbatim>\<open>' to '\<close> into
  exactly two pieces, or has a first piece that \<^verbatim>\<open>fromisoformat\<close> rejects. The piece
  after \<^verbatim>\<open>' to '\<close> is never examined.
\<close>

theorem search_tools_never_raise:
  assumes "raises_only_ValueError L" and "clock_in_range today"
  shows "(\<exists>s. search_flights L today destination travel_dates = Inr (flight_offers destination s)
              \<and> map shape (flight_offers destination s) = [flight_offer_shape, flight_offer_shape])
         \<and> Google_Hotels destination travel_dates = Inr hotel_offers
         \<and> map shape hotel_offers = [hotel_offer_shape, hotel_offer_shape]
         \<and> date_plus_days today 28 = Inr (add_days today 28)
         \<and> (keeps_default L travel_dates \<longrightarrow>
              search_flights L today destination travel_dates =
                Inr (flight_offers destination (strftime_ymd L (add_days today 28))))"
  using search_flights_offers[OF assms] search_flights_default[OF assms] Google_Hotels_offers
        clock_in_range_default[OF assms(2)]
  by (simp add: shape_flight_offers shape_hotel_offers)

theorem search_tools_never_raise_witness:
  "raises_only_ValueError date_only_lib \<and> clock_in_range (Date 2025 1 10)
   \<and> keeps_default date_only_lib (Some ''next month'')
   \<and> search_flights date_only_lib (Date 2025 1 10) ''Paris'' (Some ''next month'')
       = Inr (flight_offers ''Paris'' ''2025-02-07'')
   \<and> Google_Hotels ''Paris'' (Some ''next month'') = Inr hotel_offers"
  using search_tools_never_raise[OF date_only_lib_contract clock_2025_01_10, of "''Paris''"
          "Some ''next month''"]
        date_only_lib_contract clock_2025_01_10 next_month_keeps_default
        default_start_2025_01_10
  by simp

text \<open>
  C2, as stated, fails: \<^verbatim>\<open>'2025-06-01 to garbage'\<close> does not match the format
  \<^verbatim>\<open>YYYY-MM-DD to YYYY-MM-DD\<close>, yet on 2025-01-10 \<^verbatim>\<open>search_flights\<close> answers with offers
  departing on 2025-06-01, not on the default date 2025-02-07.
\<close>

theorem malformed_end_counterexample:
  "\<not> matches_dates_format ''2025-06-01 to garbage''
   \<and> search_flights date_only_lib (Date 2025 1 10) ''Paris'' (Some ''2025-06-01 to garbage'')
       = Inr (flight_offers ''Paris'' ''2025-06-01'')
   \<and> date_plus_days (Date 2025 1 10) 28 = Inr (Date 2025 2 7)
   \<and> strftime_ymd date_only_lib (Date 2025 2 7) = ''2025-02-07''
   \<and> flight_offers ''Paris'' ''2025-06-01'' \<noteq> flight_offers ''Paris'' ''2025-02-07''"
  by code_simp

text \<open>
  C3. For every ID \<open>x\<close>, \<^verbatim>\<open>book_flight(x)\<close> and \<^verbatim>\<open>book_hotel(x)\<close> return the dictionary with
  \<^verbatim>\<open>status\<close> \<^verbatim>\<open>"success"\<close> and \<^verbatim>\<open>confirmation_id\<close> \<^verbatim>\<open>"CONF-" + x + "-BKD"\<close>. The
  confirmation ID depends on the input ID alone, and two IDs give the same confirmation
  ID only when they are equal.
\<close>

theorem book_confirmation:
  "book_flight x =
     [(''status'', PStr ''success''), (''confirmation_id'', PStr (''CONF-'' @ x @ ''-BKD''))]
   \<and> book_hotel x =
     [(''status'', PStr ''success''), (''confirmation_id'', PStr (''CONF-'' @ x @ ''-BKD''))]
   \<and> map_of (book_flight x) ''status'' = Some (PStr ''success'')
   \<and> map_of (book_hotel x) ''status'' = Some (PStr ''success'')
   \<and> ((map_of (book_flight x) ''confirmation_id'' = map_of (book_flight y) ''confirmation_id'')
        = (x = y))
   \<and> ((map_of (book_hotel x) ''confirmation_id'' = map_of (book_hotel y) ''confirmation_id'')
        = (x = y))"
  by (simp add: book_flight_def book_hotel_def)

text \<open>
  C4. On a clock in range (on or before 9999-12-03), for every destination and every
  \<^verbatim>\<open>travel_dates\<close> that splits at \<^verbatim>\<open>' to '\<close> into a start \<open>S\<close> and an end \<open>E\<close>, with \<open>S\<close>
  accepted by \<^verbatim>\<open>fromisoformat\<close>, \<^verbatim>\<open>search_flights\<close> returns exactly two offers, priced
  450.00 and 550.00, each arriving at the destination and departing at 08:00 and 11:00
  on the date parsed from \<open>S\<close>.
\<close>

theorem search_flights_parsed:
  assumes "clock_in_range today"
    and "py_split travel_dates '' to '' = [S, E]" and "fromisoformat L S = Inr d"
  shows "search_flights L today destination (Some travel_dates) =
           Inr [ [(''id'', PStr ''FL123''), (''departure'', PStr ''New York (JFK)''),
                  (''arrival'', PStr destination), (''price'', PFloat 450),
                  (''departure_time'', PStr (strftime_ymd L d @ ''T08:00:00''))],
                 [(''id'', PStr ''FL456''), (''departure'', PStr ''New York (JFK)''),
                  (''arrival'', PStr destination), (''price'', PFloat 550),
                  (''departure_time'', PStr (strftime_ymd L d @ ''T11:00:00''))] ]"
proof -
  have ne: "travel_dates \<noteq> []"
    using assms(2) by (auto simp: py_split_def)
  have "parse_start_date L travel_dates = Inr (strftime_ymd L d)"
    using assms(2,3) by (simp add: parse_start_date_def unpack2_def)
  with ne show ?thesis
    by (simp add: search_flights_def flight_offers_def clock_in_range_default[OF assms(1)])
qed

lemma split_paris_dates:
  "py_split ''2025-06-01 to 2025-06-10'' '' to '' = [''2025-06-01'', ''2025-06-10'']"
  by code_simp

lemma parse_2025_06_01: "fromisoformat date_only_lib ''2025-06-01'' = Inr (Date 2025 6 1)"
  by code_simp

lemma format_2025_06_01: "strftime_ymd date_only_lib (Date 2025 6 1) = ''2025-06-01''"
  by code_simp

theorem search_flights_parsed_witness:
  "clock_in_range (Date 2025 1 10)
   \<and> py_split ''2025-06-01 to 2025-06-10'' '' to '' = [''2025-06-01'', ''2025-06-10'']
   \<and> fromisoformat date_only_lib ''2025-06-01'' = Inr (Date 2025 6 1)
   \<and> search_flights date_only_lib (Date 2025 1 10) ''Paris'' (Some ''2025-06-01 to 2025-06-10'') =
           Inr [ [(''id'', PStr ''FL123''), (''departure'', PStr ''New York (JFK)''),
                  (''arrival'', PStr ''Paris''), (''price'', PFloat 450),
                  (''departure_time'', PStr ''2025-06-01T08:00:00'')],
                 [(''id'', PStr ''FL456''), (''departure'', PStr ''New York (JFK)''),
                  (''arrival'', PStr ''Paris''), (''price'', PFloat 550),
                  (''departure_time'', PStr ''2025-06-01T11:00:00'')] ]"
  using search_flights_parsed[OF clock_2025_01_10 split_paris_dates parse_2025_06_01, of "''Paris''"]
        clock_2025_01_10 split_paris_dates parse_2025_06_01 format_2025_06_01
  by simp

section \<open>The tool list\<close>

text \<open>
  C5, as amended. The tool list holds exactly five tools with distinct names, and the
  hotel search is the one named \<^verbatim>\<open>Google_Hotels\<close>: it takes a destination string and an
  optional \<^verbatim>\<open>travel_dates\<close> string and returns two hotel offers with the fields
  \<^verbatim>\<open>id\<close>, \<^verbatim>\<open>name\<close> and \<^verbatim>\<open>price_per_night\<close>.
\<close>

theorem tool_list_names:
  "map tool_name tools =
     [''search_flights'', ''book_flight'', ''Google_Hotels'', ''book_hotel'',
      ''create_calendar_event'']
   \<and> length tools = 5 \<and> distinct (map tool_name tools)
   \<and> tool_args Google_Hotels_tool = [(''destination'', TStr), (''travel_dates'', TOptionalStr)]
   \<and> Google_Hotels destination travel_dates = Inr hotel_offers
   \<and> map shape hotel_offers = [hotel_offer_shape, hotel_offer_shape]"
  using Google_Hotels_offers[of destination travel_dates]
  by (simp add: tools_def search_flights_tool_def book_flight_tool_def Google_Hotels_tool_def
        book_hotel_tool_def create_calendar_event_tool_def shape_hotel_offers)

text \<open>
  C5, as stated, fails: no tool of the list is named \<^verbatim>\<open>search_hotels\<close>; the third tool,
  the hotel search, is named \<^verbatim>\<open>Google_Hotels\<close>.
\<close>

theorem no_search_hotels_counterexample:
  "find (\<lambda>t. tool_name t = ''search_hotels'') tools = None
   \<and> tool_name (tools ! 2) = ''Google_Hotels''"
  by (simp add: tools_def search_flights_tool_def book_flight_tool_def Google_Hotels_tool_def
        book_hotel_tool_def create_calendar_event_tool_def)


section \<open>The calendar tool\<close>

text \<open>
  Once a credential is in hand, the tool returns a string whatever the calendar service
  answers: the exceptions of \<^verbatim>\<open>build\<close> and of the insert request end in the returned text.
\<close>

lemma try_block_returns_string:
  assumes "from_authorized_user_file G txt = Inr c" and "cred_valid c"
  shows "\<exists>s. returned (create_calendar_event G (Some txt) title start_time end_time description)
               = Inr s"
  using assms
  by (auto simp: create_calendar_event_def load_credentials_def ensure_credentials_def
        insert_event_def Let_def split: sum.splits prod.splits)

text \<open>An exception of the refresh request is outside the \<^verbatim>\<open>try\<close> block and leaves the tool.\<close>

lemma refresh_exception_leaves_tool:
  assumes "from_authorized_user_file G txt = Inr c" and "expired c"
    and "truthy (refresh_token c)" and "refresh G c = Inl e"
  shows "returned (create_calendar_event G (Some txt) title start_time end_time description)
           = Inl e"
  using assms
  by (simp add: create_calendar_event_def load_credentials_def ensure_credentials_def
        refresh_or_consent_def cred_valid_def)

text \<open>
  C1, evaluated at a failing input. \<^verbatim>\<open>token.json\<close> holds an expired credential with a
  refresh token and the token endpoint rejects the refresh: \<^verbatim>\<open>RefreshError\<close> leaves
  \<^verbatim>\<open>create_calendar_event\<close> after the calls \<^verbatim>\<open>from_authorized_user_file\<close> and
  \<^verbatim>\<open>refresh\<close>; no error string is returned.
\<close>

theorem refresh_rejection_propagates:
  "create_calendar_event api_refresh_rejected (Some ''token=ya29.old'') ''Trip to Paris''
       ''2025-06-01T08:00:00'' ''2025-06-01T11:00:00'' ''Flight FL123''
     = \<lparr>returned = Inl (Exn RefreshError ''invalid_grant: Token has been expired or revoked.''),
        token_json = Some ''token=ya29.old'', calls = [LoadToken, Refresh]\<rparr>"
  by (simp add: create_calendar_event_def load_credentials_def ensure_credentials_def
        refresh_or_consent_def api_refresh_rejected_def api_online_def stored_expired_def
        cred_valid_def truthy_def)

text \<open>
  C8. Let \<^verbatim>\<open>token.json\<close> exist and load as the credential \<open>c\<close>. If \<open>c\<close> is valid, the
  consent flow is not started (neither \<^verbatim>\<open>from_client_secrets_file\<close> nor
  \<^verbatim>\<open>run_local_server\<close> is called). If \<open>c\<close> is expired and has a refresh token, the tool
  calls \<^verbatim>\<open>refresh\<close> exactly once and starts no consent flow; when the refresh returns
  \<open>c'\<close>, \<^verbatim>\<open>token.json\<close> then holds \<open>c'\<close>, written right after the refresh.
\<close>

theorem credential_state_machine:
  assumes "from_authorized_user_file G txt = Inr c"
  shows "(cred_valid c \<longrightarrow>
            RunLocalServer \<notin> set (calls (create_calendar_event G (Some txt) title start_time
                                            end_time description))
          \<and> ClientSecrets \<notin> set (calls (create_calendar_event G (Some txt) title start_time
                                            end_time description)))
       \<and> (expired c \<and> truthy (refresh_token c) \<longrightarrow>
            count_list (calls (create_calendar_event G (Some txt) title start_time end_time
                                 description)) Refresh = 1
          \<and> RunLocalServer \<notin> set (calls (create_calendar_event G (Some txt) title start_time
                                            end_time description))
          \<and> (\<forall>c'. refresh G c = Inr c' \<longrightarrow>
                token_json (create_calendar_event G (Some txt) title start_time end_time
                              description) = Some (to_json G c')
              \<and> take 3 (calls (create_calendar_event G (Some txt) title start_time end_time
                                  description))
                  = [LoadToken, Refresh, WriteToken (to_json G c')]))"
  using assms
  by (auto simp: create_calendar_event_def load_credentials_def ensure_credentials_def
        refresh_or_consent_def insert_event_def cred_valid_def Let_def
        split: sum.splits prod.splits)

theorem credential_state_machine_witness:
  "cred_valid stored_valid \<and> expired stored_expired \<and> truthy (refresh_token stored_expired)
   \<and> RunLocalServer \<notin> set (calls (create_calendar_event (api_online stored_valid)
                                     (Some ''token=ya29.live'') ''Trip'' ''a'' ''b'' ''d''))
   \<and> count_list (calls (create_calendar_event (api_online stored_expired)
                          (Some ''token=ya29.old'') ''Trip'' ''a'' ''b'' ''d'')) Refresh = 1
   \<and> token_json (create_calendar_event (api_online stored_expired)
                   (Some ''token=ya29.old'') ''Trip'' ''a'' ''b'' ''d'') = Some ''token=ya29.new''"
proof -
  have a: "from_authorized_user_file (api_online stored_valid) ''token=ya29.live''
             = Inr stored_valid"
    by (simp add: api_online_def)
  have b: "from_authorized_user_file (api_online stored_expired) ''token=ya29.old''
             = Inr stored_expired"
    by (simp add: api_online_def)
  have v: "cred_valid stored_valid"
    by (simp add: cred_valid_def stored_valid_def)
  have e: "expired stored_expired \<and> truthy (refresh_token stored_expired)"
    by (simp add: stored_expired_def truthy_def)
  have r: "refresh (api_online stored_expired) stored_expired = Inr refreshed"
    by (simp add: api_online_def)
  have j: "to_json (api_online stored_expired) refreshed = ''token=ya29.new''"
    by (simp add: api_online_def refreshed_def str_of_get_def)
  from credential_state_machine[OF a, of "''Trip''" "''a''" "''b''" "''d''"] v
       credential_state_machine[OF b, of "''Trip''" "''a''" "''b''" "''d''"] e r j
  show ?thesis by simp
qed

text \<open>
  C10. If \<^verbatim>\<open>token.json\<close> exists and loads as a valid credential, the tool does not write
  the file: its contents after the call are those before it. For every call of the
  tool, a write of \<^verbatim>\<open>token.json\<close> is preceded by a refresh or by the consent flow, and
  the contents of the file change only through such a write.
\<close>

theorem valid_token_file_untouched:
  "(from_authorized_user_file G txt = Inr c \<and> cred_valid c \<longrightarrow>
      token_json (create_calendar_event G (Some txt) title start_time end_time description)
        = Some txt
    \<and> \<not> list_ex is_write
          (calls (create_calendar_event G (Some txt) title start_time end_time description)))
   \<and> (list_ex is_write
         (calls (create_calendar_event G token_file title start_time end_time description)) \<longrightarrow>
        Refresh \<in> set (calls (create_calendar_event G token_file title start_time end_time
                                 description))
      \<or> RunLocalServer \<in> set (calls (create_calendar_event G token_file title start_time
                                        end_time description)))
   \<and> (token_json (create_calendar_event G token_file title start_time end_time description)
         \<noteq> token_file \<longrightarrow>
        list_ex is_write
          (calls (create_calendar_event G token_file title start_time end_time description)))"
  by (auto simp: create_calendar_event_def load_credentials_def ensure_credentials_def
        refresh_or_consent_def consent_flow_def insert_event_def cred_valid_def Let_def
        list_ex_iff
        split: sum.splits prod.splits option.splits if_splits)

theorem valid_token_file_untouched_witness:
  "cred_valid stored_valid
   \<and> token_json (create_calendar_event (api_online stored_valid) (Some ''token=ya29.live'')
                   ''Trip'' ''a'' ''b'' ''d'') = Some ''token=ya29.live''
   \<and> \<not> list_ex is_write (calls (create_calendar_event (api_online stored_valid)
                                   (Some ''token=ya29.live'') ''Trip'' ''a'' ''b'' ''d''))
   \<and> list_ex is_write (calls (create_calendar_event (api_online stored_valid) None
                                ''Trip'' ''a'' ''b'' ''d''))
   \<and> RunLocalServer \<in> set (calls (create_calendar_event (api_online stored_valid) None
                                     ''Trip'' ''a'' ''b'' ''d''))
   \<and> token_json (create_calendar_event (api_online stored_valid) None
                   ''Trip'' ''a'' ''b'' ''d'') \<noteq> None"
proof -
  have a: "from_authorized_user_file (api_online stored_valid) ''token=ya29.live''
             = Inr stored_valid"
    by (simp add: api_online_def)
  have v: "cred_valid stored_valid"
    by (simp add: cred_valid_def stored_valid_def)
  have w: "calls (create_calendar_event (api_online stored_valid) None ''Trip'' ''a'' ''b'' ''d'')
            = [ClientSecrets, RunLocalServer, WriteToken ''token=ya29.new'', Build,
               InsertEvent (event_body ''Trip'' ''a'' ''b'' ''d'')]"
    by (simp add: create_calendar_event_def load_credentials_def ensure_credentials_def
        refresh_or_consent_def consent_flow_def insert_event_def api_online_def refreshed_def
        str_of_get_def)
  have t: "token_json (create_calendar_event (api_online stored_valid) None
                         ''Trip'' ''a'' ''b'' ''d'') = Some ''token=ya29.new''"
    by (simp add: create_calendar_event_def load_credentials_def ensure_credentials_def
        refresh_or_consent_def consent_flow_def insert_event_def api_online_def refreshed_def
        str_of_get_def)
  from valid_token_file_untouched[of "api_online stored_valid" "''token=ya29.live''"
         stored_valid "''Trip''" "''a''" "''b''" "''d''" None] a v w t
  show ?thesis by simp
qed

section \<open>The chat front end\<close>

lemma handler_messages:
  "messages (chat_input_handler ex msgs p) =
     msgs @ (case p of None \<Rightarrow> [] | Some prompt \<Rightarrow>
               if prompt = [] then []
               else HumanMessage prompt #
                 (case ex \<lparr>inv_input = prompt, chat_history = msgs\<rparr> of
                    Inl e \<Rightarrow> [] | Inr r \<Rightarrow> [AIMessage (output_text r) []]))"
  by (auto simp: chat_input_handler_def Let_def split: option.splits sum.splits)

lemma handler_raised:
  "raised (chat_input_handler ex msgs p) =
     (case p of None \<Rightarrow> None | Some prompt \<Rightarrow>
        if prompt = [] then None
        else (case ex \<lparr>inv_input = prompt, chat_history = msgs\<rparr> of
                Inl e \<Rightarrow> Some e | Inr r \<Rightarrow> None))"
  by (auto simp: chat_input_handler_def Let_def split: option.splits sum.splits)

lemma handler_keeps_chat_text:
  "list_all is_chat_text msgs \<Longrightarrow> list_all is_chat_text (messages (chat_input_handler ex msgs p))"
  by (auto simp: handler_messages split: option.splits sum.splits)

lemma handler_invoked_history:
  "invoked (chat_input_handler ex msgs p) = Some req \<Longrightarrow> chat_history req = msgs"
  by (auto simp: chat_input_handler_def Let_def split: option.splits sum.splits if_splits)

lemma session_messages_chat_text:
  "list_all is_chat_text msgs \<Longrightarrow> list_all is_chat_text (session_messages ex msgs ps)"
  by (induction ps arbitrary: msgs) (auto intro: handler_keeps_chat_text)

lemma session_invocations_chat_text:
  "list_all is_chat_text msgs \<Longrightarrow>
     list_all (\<lambda>req. list_all is_chat_text (chat_history req)) (session_invocations ex msgs ps)"
proof (induction ps arbitrary: msgs)
  case Nil
  then show ?case by simp
next
  case (Cons p ps)
  have rest: "list_all (\<lambda>req. list_all is_chat_text (chat_history req))
                (session_invocations ex (messages (chat_input_handler ex msgs p)) ps)"
    using Cons by (intro Cons.IH handler_keeps_chat_text)
  show ?case
  proof (cases "invoked (chat_input_handler ex msgs p)")
    case None
    with rest show ?thesis by simp
  next
    case (Some req)
    with handler_invoked_history[OF Some] Cons.prems rest show ?thesis by simp
  qed
qed

text \<open>
  C6. On a turn with a non-empty prompt, the executor is called with the prompt as input
  and with \<^verbatim>\<open>messages[:-1]\<close> as history, taken after the prompt's message was appended:
  the history is the list of messages before the turn, and the stored messages continue
  it with the prompt's message, which the history therefore does not hold. What the turn
  stores and what it raises are the executor's answer to exactly this call, for every
  executor.
\<close>

theorem history_excludes_current_input:
  assumes "prompt \<noteq> []"
  shows "invoked (chat_input_handler ex msgs (Some prompt))
           = Some \<lparr>inv_input = prompt, chat_history = butlast (msgs @ [HumanMessage prompt])\<rparr>
       \<and> butlast (msgs @ [HumanMessage prompt]) = msgs
       \<and> take (Suc (length msgs)) (messages (chat_input_handler ex msgs (Some prompt)))
           = msgs @ [HumanMessage prompt]
       \<and> messages (chat_input_handler ex msgs (Some prompt)) =
           msgs @ HumanMessage prompt #
             (case ex \<lparr>inv_input = prompt, chat_history = msgs\<rparr> of
                Inl e \<Rightarrow> [] | Inr r \<Rightarrow> [AIMessage (output_text r) []])
       \<and> raised (chat_input_handler ex msgs (Some prompt)) =
           (case ex \<lparr>inv_input = prompt, chat_history = msgs\<rparr> of
              Inl e \<Rightarrow> Some e | Inr r \<Rightarrow> None)"
  using assms
  by (auto simp: handler_messages handler_raised chat_input_handler_def Let_def
        split: sum.splits)


theorem history_excludes_current_input_witness:
  "''hi'' \<noteq> []
   \<and> invoked (chat_input_handler duplicate_detector initial_messages (Some ''hi''))
       = Some \<lparr>inv_input = ''hi'', chat_history = initial_messages\<rparr>
   \<and> messages (chat_input_handler duplicate_detector initial_messages (Some ''hi''))
       = [AIMessage ''How can I help you plan your next trip?'' [], HumanMessage ''hi'',
          AIMessage ''input is not in the history'' []]"
  using history_excludes_current_input[of "''hi''" duplicate_detector initial_messages]
  by (simp add: duplicate_detector_def initial_messages_def)

text \<open>
  C7. A turn appends the user's message and, when the executor returns, one assistant
  message holding the final answer text; nothing of the executor's scratchpad is
  appended. So in a session started from the greeting, after any sequence of chat
  inputs and whatever the executor does, every stored message and every message of
  every history handed to the executor is user text or assistant text without tool
  calls.
\<close>

theorem transcript_holds_no_scratch:
  "list_all is_chat_text (session_messages ex initial_messages prompts)
   \<and> list_all (\<lambda>req. list_all is_chat_text (chat_history req))
        (session_invocations ex initial_messages prompts)
   \<and> (prompt \<noteq> [] \<longrightarrow>
        messages (chat_input_handler ex msgs (Some prompt)) =
          msgs @ HumanMessage prompt #
            (case ex \<lparr>inv_input = prompt, chat_history = msgs\<rparr> of
               Inl e \<Rightarrow> [] | Inr r \<Rightarrow> [AIMessage (output_text r) []]))"
proof -
  have i: "list_all is_chat_text initial_messages"
    by (simp add: initial_messages_def)
  show ?thesis
    using session_messages_chat_text[OF i] session_invocations_chat_text[OF i]
    by (simp add: handler_messages)
qed

theorem transcript_holds_no_scratch_witness:
  "''I want to fly to London next month'' \<noteq> []
   \<and> messages (chat_input_handler scripted_executor initial_messages
                 (Some ''I want to fly to London next month''))
       = [AIMessage ''How can I help you plan your next trip?'' [],
          HumanMessage ''I want to fly to London next month'',
          AIMessage ''Answer to: I want to fly to London next month'' []]"
  using transcript_holds_no_scratch[of scripted_executor "[]"
          "''I want to fly to London next month''" initial_messages]
  by (simp add: scripted_executor_def initial_messages_def)

section \<open>The planning loop\<close>

lemma planning_loop_bounded:
  "snd (planning_loop oracle catalogue invoke history inp cap scratch) \<le> cap
   \<and> (planning_loop oracle catalogue invoke history inp cap scratch = (unable_to_complete, cap)
      \<or> (\<exists>ctx. oracle ctx =
            FinalAnswer (fst (planning_loop oracle catalogue invoke history inp cap scratch))))"
proof (induction cap arbitrary: scratch)
  case 0
  then show ?case by simp
next
  case (Suc n)
  show ?case
  proof (cases "oracle \<lparr>ctx_history = history, ctx_input = inp, ctx_scratch = scratch\<rparr>")
    case (FinalAnswer answer)
    then show ?thesis by auto
  next
    case (ToolCallRequests rs)
    with Suc[of "scratch @ map (\<lambda>r. (r, run_request catalogue invoke r)) rs"]
    show ?thesis by (auto split: prod.splits)
  qed
qed

lemma planning_loop_no_answer:
  "(\<And>ctx. \<exists>rs. oracle ctx = ToolCallRequests rs) \<Longrightarrow>
     planning_loop oracle catalogue invoke history inp cap scratch = (unable_to_complete, cap)"
proof (induction cap arbitrary: scratch)
  case 0
  then show ?case by simp
next
  case (Suc n)
  from Suc.prems obtain rs where
    "oracle \<lparr>ctx_history = history, ctx_input = inp, ctx_scratch = scratch\<rparr> = ToolCallRequests rs"
    by blast
  with Suc.IH[OF Suc.prems] show ?case by simp
qed

text \<open>
  C9. For every oracle, tool runner and cap, the planning loop returns after asking the
  oracle at most \<open>cap\<close> times: with a final answer the oracle gave, or, having asked
  \<open>cap\<close> times, with the answer \<^verbatim>\<open>unable to complete\<close>. An oracle that only ever
  requests tools ends in the latter.
\<close>

theorem planning_loop_terminates:
  "snd (planning_loop oracle catalogue invoke history inp cap scratch) \<le> cap
   \<and> (planning_loop oracle catalogue invoke history inp cap scratch = (unable_to_complete, cap)
      \<or> (\<exists>ctx. oracle ctx =
            FinalAnswer (fst (planning_loop oracle catalogue invoke history inp cap scratch))))
   \<and> ((\<forall>ctx. \<exists>rs. oracle ctx = ToolCallRequests rs) \<longrightarrow>
        planning_loop oracle catalogue invoke history inp cap scratch = (unable_to_complete, cap))"
  using planning_loop_bounded[of "oracle" catalogue invoke history inp cap scratch]
        planning_loop_no_answer[of "oracle" catalogue invoke history inp cap scratch]
  by blast

theorem planning_loop_terminates_witness:
  "(\<forall>ctx. \<exists>rs. always_searching ctx = ToolCallRequests rs)
   \<and> planning_loop always_searching tools (\<lambda>r. ResultData []) initial_messages
       ''Find flights'' 15 [] = (unable_to_complete, 15)"
  using planning_loop_terminates[of always_searching tools "\<lambda>r. ResultData []"
          initial_messages "''Find flights''" 15 "[]"]
  by (simp add: always_searching_def)

end
